theory Spec2Isabelle
  imports Main "HOL-Library.Word"
begin

section \<open>JavaScript strings\<close>

text \<open>
  A JavaScript string is a sequence of UTF-16 code units. String literals of the sources
  are written \<open>js ''...''\<close>; code units outside ASCII (bullets, arrows, emoji) are
  written as numbers.
\<close>

type_synonym code_unit = "16 word"
type_synonym jsstring = "code_unit list"

definition js :: "string \<Rightarrow> jsstring" where
  "js s = map of_char s"

text \<open>
  \<open>String.prototype.toLowerCase\<close>: the letters A to Z are mapped to a to z. The Unicode
  case tables are no part of the repository; code units outside A to Z are left as they are.
\<close>

definition toLowerCase :: "jsstring \<Rightarrow> jsstring" where
  "toLowerCase s = map (\<lambda>c. if 0x0041 \<le> c \<and> c \<le> 0x005A then c + 0x0020 else c) s"

fun startsWith :: "jsstring \<Rightarrow> jsstring \<Rightarrow> bool" where
  "startsWith s [] = True"
| "startsWith [] (c # cs) = False"
| "startsWith (x # xs) (c # cs) = (x = c \<and> startsWith xs cs)"

text \<open>\<open>hay.includes(needle)\<close>: the needle occurs at some position; the empty needle always does.\<close>

fun str_includes :: "jsstring \<Rightarrow> jsstring \<Rightarrow> bool" where
  "str_includes [] needle = (needle = [])"
| "str_includes (x # xs) needle = (startsWith (x # xs) needle \<or> str_includes xs needle)"

text \<open>\<open>Array.prototype.join\<close> on an array of strings.\<close>

fun join :: "jsstring \<Rightarrow> jsstring list \<Rightarrow> jsstring" where
  "join sep [] = []"
| "join sep [x] = x"
| "join sep (x # y # ys) = x @ sep @ join sep (y # ys)"

text \<open>
  A non-negative integer in a template literal (\<open>${unit.number}\<close>, \<open>${subject.units.length}\<close>):
  its decimal digits. JavaScript numbers are doubles; the model is exact below \<open>2^53\<close>.
\<close>

fun numberToString :: "nat \<Rightarrow> jsstring" where
  "numberToString n =
     (if n < 10 then [of_nat (48 + n)] else numberToString (n div 10) @ [of_nat (48 + n mod 10)])"

declare numberToString.simps [simp del]

definition isLineTerminator :: "code_unit \<Rightarrow> bool" where
  "isLineTerminator c = (c = 0x000A \<or> c = 0x000D \<or> c = 0x2028 \<or> c = 0x2029)"

text \<open>White space and line terminators: what \<open>\s\<close> matches and \<open>trim\<close> removes.\<close>

definition isWhiteSpace :: "code_unit \<Rightarrow> bool" where
  "isWhiteSpace c =
     (c = 0x0009 \<or> c = 0x000A \<or> c = 0x000B \<or> c = 0x000C \<or> c = 0x000D \<or> c = 0x0020 \<or>
      c = 0x00A0 \<or> c = 0x1680 \<or> (0x2000 \<le> c \<and> c \<le> 0x200A) \<or> c = 0x2028 \<or> c = 0x2029 \<or>
      c = 0x202F \<or> c = 0x205F \<or> c = 0x3000 \<or> c = 0xFEFF)"

definition isDigit :: "code_unit \<Rightarrow> bool" where
  "isDigit c = (0x0030 \<le> c \<and> c \<le> 0x0039)"

definition trim :: "jsstring \<Rightarrow> jsstring" where
  "trim s = rev (dropWhile isWhiteSpace (rev (dropWhile isWhiteSpace s)))"

text \<open>
  \<open>parseInt\<close> on a string of decimal digits, which is all the capture \<open>(\d+)\<close> can hold.
\<close>

definition parseInt :: "jsstring \<Rightarrow> nat" where
  "parseInt s = foldl (\<lambda>n c. 10 * n + (unat c - 48)) 0 s"

text \<open>
  The values the sources pass where a string is expected: \<open>null\<close>, \<open>undefined\<close> or a
  string. A string is truthy when it is not empty; in a concatenation or template literal
  \<open>null\<close> and \<open>undefined\<close> print as their names.
\<close>

datatype jsval = Null | Undefined | Str jsstring

fun truthy :: "jsval \<Rightarrow> bool" where
  "truthy Null = False"
| "truthy Undefined = False"
| "truthy (Str s) = (s \<noteq> [])"

fun toStr :: "jsval \<Rightarrow> jsstring" where
  "toStr Null = js ''null''"
| "toStr Undefined = js ''undefined''"
| "toStr (Str s) = s"

section \<open>History Ring (addToHistory, src/llm.js and its variants)\<close>

datatype role = User | Assistant

record turn =
  role :: role
  content :: jsstring

definition MAX_HISTORY :: nat where
  "MAX_HISTORY = 10"

text \<open>
  \<open>conversationHistory.push({ role, content })\<close>, then \<open>shift()\<close> when the length
  exceeds \<open>MAX_HISTORY\<close>. The global array is passed in and returned.
\<close>

definition addToHistory :: "turn list \<Rightarrow> role \<Rightarrow> jsstring \<Rightarrow> turn list" where
  "addToHistory conversationHistory r c =
     (let pushed = conversationHistory @ [\<lparr>role = r, content = c\<rparr>]
      in if length pushed > MAX_HISTORY then tl pushed else pushed)"

text \<open>A sequence of calls of \<open>addToHistory\<close>, in order.\<close>

fun appendAll :: "turn list \<Rightarrow> (role \<times> jsstring) list \<Rightarrow> turn list" where
  "appendAll h [] = h"
| "appendAll h ((r, c) # ops) = appendAll (addToHistory h r c) ops"

definition turnOf :: "role \<times> jsstring \<Rightarrow> turn" where
  "turnOf p = \<lparr>role = fst p, content = snd p\<rparr>"

section \<open>Catalog and the local responder (generateLocalResponse)\<close>

record syllabus_unit =
  number :: nat
  title :: jsstring
  topics :: "jsstring list"

record subject =
  code :: jsstring
  name :: jsstring
  fullName :: jsstring
  credits :: nat
  type :: jsstring
  units :: "syllabus_unit list"

text \<open>
  The catalog object handed to the responder. Its \<open>subjects\<close> property may be absent
  (\<open>syllabusData.subjects || []\<close>); an array is always truthy, so \<open>subject.units || []\<close>
  is the unit list itself.
\<close>

record syllabusData =
  subjects :: "subject list option"

definition subjectsOrEmpty :: "syllabusData \<Rightarrow> subject list" where
  "subjectsOrEmpty d = (case subjects d of None \<Rightarrow> [] | Some ss \<Rightarrow> ss)"

text \<open>The body of the inner loop: two \<open>response +=\<close> per unit.\<close>

definition unitLines :: "syllabus_unit \<Rightarrow> jsstring" where
  "unitLines unit =
     js ''**Unit '' @ numberToString (number unit) @ js '': '' @ title unit @ js ''**\<newline>'' @
     join (js ''\<newline>'') (map (\<lambda>t. [0x2022] @ js '' '' @ t) (topics unit)) @ js ''\<newline>\<newline>''"

definition subjectDump :: "subject \<Rightarrow> jsstring" where
  "subjectDump subject =
     js ''**'' @ name subject @ js ''** ('' @ code subject @ js '')\<newline>\<newline>'' @
     concat (map unitLines (units subject))"

definition nameMatches :: "jsstring \<Rightarrow> subject \<Rightarrow> bool" where
  "nameMatches queryLower subject =
     (str_includes (toLowerCase (name subject)) queryLower \<or>
      str_includes queryLower (toLowerCase (name subject)))"

text \<open>The \<open>for (const subject of ...)\<close> loop, returning from inside at the first match.\<close>

fun searchSubjects :: "jsstring \<Rightarrow> subject list \<Rightarrow> jsstring option" where
  "searchSubjects queryLower [] = None"
| "searchSubjects queryLower (subject # rest) =
     (if nameMatches queryLower subject then Some (subjectDump subject)
      else searchSubjects queryLower rest)"

definition subjectListing :: "subject list \<Rightarrow> jsstring" where
  \<open>subjectListing ss =
     js ''I couldn't connect to the AI backend. Here are the available subjects: '' @
     join (js '', '') (map name ss) @
     js ''\<newline>\<newline>Try asking about a specific subject like "Machine Learning" or "Deep Learning".''\<close>

definition generateLocalResponse :: "jsstring \<Rightarrow> syllabusData \<Rightarrow> jsstring" where
  "generateLocalResponse query syllabusData =
     (case searchSubjects (toLowerCase query) (subjectsOrEmpty syllabusData) of
        Some response \<Rightarrow> response
      | None \<Rightarrow> subjectListing (subjectsOrEmpty syllabusData))"

section \<open>Regular expressions\<close>

text \<open>
  The regular expressions of the sources, as syntax trees, and a backtracking matcher in the
  order of ECMAScript: \<open>m ci r st\<close> lists the states in which a match of \<open>r\<close> started in
  \<open>st\<close> can end, the one a backtracking engine finds first at the head. \<open>Bol\<close> and \<open>Eol\<close>
  are \<open>^\<close> and \<open>$\<close> under the flag \<open>m\<close>; \<open>ci\<close> is the flag \<open>i\<close>; \<open>Star True\<close> and
  \<open>Plus True\<close> are greedy, \<open>Star False\<close> and \<open>Plus False\<close> lazy (\<open>*?\<close>, \<open>+?\<close>).
\<close>

datatype regex =
    Eps
  | Chr code_unit
  | Dot
  | Space
  | Digit
  | Bol
  | Eol
  | Seq regex regex
  | Alt regex regex
  | Grp nat regex
  | Star bool regex
  | Plus bool regex

fun lits :: "jsstring \<Rightarrow> regex" where
  "lits [] = Eps"
| "lits (c # cs) = Seq (Chr c) (lits cs)"

text \<open>
  A matcher state: the code unit before the current position (none at the start of the
  input), the input from the current position on, and the captures so far.
\<close>

record mstate =
  prev :: "code_unit option"
  rest :: jsstring
  caps :: "nat \<Rightarrow> jsstring option"

text \<open>
  Case-insensitive comparison canonicalizes both code units. Every pattern of the sources
  is ASCII, and ECMAScript never canonicalizes a code unit outside ASCII to one inside.
\<close>

definition canonicalize :: "code_unit \<Rightarrow> code_unit" where
  "canonicalize c = (if 0x0061 \<le> c \<and> c \<le> 0x007A then c - 0x0020 else c)"

definition consume :: "(code_unit \<Rightarrow> bool) \<Rightarrow> mstate \<Rightarrow> mstate list" where
  "consume P st =
     (case rest st of
        [] \<Rightarrow> []
      | x # xs \<Rightarrow> if P x then [st\<lparr>prev := Some x, rest := xs\<rparr>] else [])"

fun rsize :: "regex \<Rightarrow> nat" where
  "rsize (Seq r1 r2) = Suc (rsize r1 + rsize r2)"
| "rsize (Alt r1 r2) = Suc (rsize r1 + rsize r2)"
| "rsize (Grp n r) = Suc (rsize r)"
| "rsize (Star g r) = Suc (rsize r)"
| "rsize (Plus g r) = Suc (Suc (rsize r))"
| "rsize r = 0"

function m :: "bool \<Rightarrow> regex \<Rightarrow> mstate \<Rightarrow> mstate list" where
  "m ci Eps st = [st]"
| "m ci (Chr c) st = consume (\<lambda>x. if ci then canonicalize x = canonicalize c else x = c) st"
| "m ci Dot st = consume (\<lambda>x. \<not> isLineTerminator x) st"
| "m ci Space st = consume isWhiteSpace st"
| "m ci Digit st = consume isDigit st"
| "m ci Bol st = (case prev st of None \<Rightarrow> [st] | Some p \<Rightarrow> if isLineTerminator p then [st] else [])"
| "m ci Eol st = (case rest st of [] \<Rightarrow> [st] | x # xs \<Rightarrow> if isLineTerminator x then [st] else [])"
| "m ci (Seq r1 r2) st = concat (map (m ci r2) (m ci r1 st))"
| "m ci (Alt r1 r2) st = m ci r1 st @ m ci r2 st"
| "m ci (Grp n r) st =
     map (\<lambda>st'. st'\<lparr>caps := (caps st')(n \<mapsto> take (length (rest st) - length (rest st')) (rest st))\<rparr>)
       (m ci r st)"
| "m ci (Star g r) st =
     (let more = concat (map (m ci (Star g r))
                   (filter (\<lambda>st'. length (rest st') < length (rest st)) (m ci r st)))
      in if g then more @ [st] else st # more)"
| "m ci (Plus g r) st = concat (map (m ci (Star g r)) (m ci r st))"
  by pat_completeness auto
termination
  by (relation "measures [\<lambda>(ci, r, st). rsize r, \<lambda>(ci, r, st). length (rest st)]") auto

text \<open>The match of \<open>r\<close> that starts at the current position, if there is one.\<close>

definition matchAt :: "bool \<Rightarrow> regex \<Rightarrow> code_unit option \<Rightarrow> jsstring \<Rightarrow> mstate option" where
  "matchAt ci r p s =
     (case m ci r \<lparr>prev = p, rest = s, caps = Map.empty\<rparr> of [] \<Rightarrow> None | st # sts \<Rightarrow> Some st)"

text \<open>
  \<open>str.match(re)\<close> without the flag \<open>g\<close>: the first position, from the left, at which the
  expression matches.
\<close>

fun search :: "bool \<Rightarrow> regex \<Rightarrow> code_unit option \<Rightarrow> jsstring \<Rightarrow> mstate option" where
  "search ci r p [] = matchAt ci r p []"
| "search ci r p (c # cs) =
     (case matchAt ci r p (c # cs) of Some st \<Rightarrow> Some st | None \<Rightarrow> search ci r (Some c) cs)"

definition capture :: "mstate \<Rightarrow> nat \<Rightarrow> jsstring" where
  "capture st n = (case caps st n of None \<Rightarrow> [] | Some s \<Rightarrow> s)"

text \<open>
  A replacement string, cut at its \<open>$1\<close>, \<open>$2\<close> and \<open>$&\<close>; a group that took no part
  in the match expands to the empty string.
\<close>

datatype tpart = Lit jsstring | Cap nat | Whole

fun expand :: "tpart list \<Rightarrow> jsstring \<Rightarrow> (nat \<Rightarrow> jsstring option) \<Rightarrow> jsstring" where
  "expand [] whole cs = []"
| "expand (Lit s # ps) whole cs = s @ expand ps whole cs"
| "expand (Cap n # ps) whole cs = (case cs n of None \<Rightarrow> [] | Some s \<Rightarrow> s) @ expand ps whole cs"
| "expand (Whole # ps) whole cs = whole @ expand ps whole cs"

text \<open>
  \<open>str.replace(re, replacement)\<close> with the flag \<open>g\<close>: matches are looked for from left to
  right and do not overlap; after an empty match the search moves on by one code unit.
\<close>

function replace_g :: "bool \<Rightarrow> regex \<Rightarrow> tpart list \<Rightarrow> code_unit option \<Rightarrow> jsstring \<Rightarrow> jsstring" where
  "replace_g ci r tmpl p s =
     (case matchAt ci r p s of
        Some st \<Rightarrow>
          (let n = length s - length (rest st)
           in if n = 0
              then expand tmpl [] (caps st) @
                   (case s of [] \<Rightarrow> [] | c # cs \<Rightarrow> c # replace_g ci r tmpl (Some c) cs)
              else expand tmpl (take n s) (caps st) @ replace_g ci r tmpl (prev st) (rest st))
      | None \<Rightarrow> (case s of [] \<Rightarrow> [] | c # cs \<Rightarrow> c # replace_g ci r tmpl (Some c) cs))"
  by pat_completeness auto
termination
  by (relation "measure (\<lambda>(ci, r, tmpl, p, s). length s)") auto

declare replace_g.simps [simp del]

definition replace :: "bool \<Rightarrow> regex \<Rightarrow> tpart list \<Rightarrow> jsstring \<Rightarrow> jsstring" where
  "replace ci r tmpl s = replace_g ci r tmpl None s"

section \<open>Response formatter (formatLLMResponse)\<close>

text \<open>\<open>/^### (.+)$/gm\<close>, \<open>/^## (.+)$/gm\<close>, \<open>/^# (.+)$/gm\<close>\<close>

definition re_h4 :: regex where
  "re_h4 = Seq Bol (Seq (lits (js ''### '')) (Seq (Grp 1 (Plus True Dot)) Eol))"

definition re_h3 :: regex where
  "re_h3 = Seq Bol (Seq (lits (js ''## '')) (Seq (Grp 1 (Plus True Dot)) Eol))"

definition re_h2 :: regex where
  "re_h2 = Seq Bol (Seq (lits (js ''# '')) (Seq (Grp 1 (Plus True Dot)) Eol))"

text \<open>\<open>/\*\*(.+?)\*\*/g\<close>, \<open>/\*(.+?)\*/g\<close> and the same with a backquote for code\<close>

definition re_strong :: regex where
  "re_strong = Seq (lits (js ''**'')) (Seq (Grp 1 (Plus False Dot)) (lits (js ''**'')))"

definition re_em :: regex where
  "re_em = Seq (lits (js ''*'')) (Seq (Grp 1 (Plus False Dot)) (lits (js ''*'')))"

definition re_code :: regex where
  "re_code = Seq (lits (js ''`'')) (Seq (Grp 1 (Plus False Dot)) (lits (js ''`'')))"

text \<open>\<open>/\n\n/g\<close> and \<open>/\n/g\<close>\<close>

definition re_nn :: regex where
  "re_nn = lits (js ''\<newline>\<newline>'')"

definition re_n :: regex where
  "re_n = lits (js ''\<newline>'')"

text \<open>\<open>/<p>- (.+?)(<br>|<\/p>)/g\<close>, the same with a bullet, and \<open>/(<li>.+<\/li>)+/g\<close>\<close>

definition re_li :: regex where
  "re_li = Seq (lits (js ''<p>- ''))
             (Seq (Grp 1 (Plus False Dot)) (Grp 2 (Alt (lits (js ''<br>'')) (lits (js ''</p>'')))))"

definition re_li_bullet :: regex where
  "re_li_bullet = Seq (lits (js ''<p>'' @ [0x2022] @ js '' ''))
             (Seq (Grp 1 (Plus False Dot)) (Grp 2 (Alt (lits (js ''<br>'')) (lits (js ''</p>'')))))"

definition re_ul :: regex where
  "re_ul = Plus True (Grp 1 (Seq (lits (js ''<li>'')) (Seq (Plus True Dot) (lits (js ''</li>'')))))"

text \<open>The replacement \<open><t>$1</t>\<close>.\<close>

definition tag :: "string \<Rightarrow> tpart list" where
  "tag t = [Lit (js ''<'' @ js t @ js ''>''), Cap 1, Lit (js ''</'' @ js t @ js ''>'')]"

text \<open>The chain of eight \<open>.replace\<close> calls on the text, innermost first.\<close>

definition inlineMarkup :: "jsstring \<Rightarrow> jsstring" where
  "inlineMarkup text =
     replace False re_n [Lit (js ''<br>'')] (
     replace False re_nn [Lit (js ''</p><p>'')] (
     replace False re_code (tag ''code'') (
     replace False re_em (tag ''em'') (
     replace False re_strong (tag ''strong'') (
     replace False re_h2 (tag ''h2'') (
     replace False re_h3 (tag ''h3'') (
     replace False re_h4 (tag ''h4'') text)))))))"

text \<open>
  The paragraph wrapper and the two list replacements (src/llm.js, lines 159 to 164).
\<close>

definition listMarkup :: "jsstring \<Rightarrow> jsstring" where
  "listMarkup html =
     replace False re_ul [Lit (js ''<ul>''), Whole, Lit (js ''</ul>'')] (
     replace False re_li [Lit (js ''<li>''), Cap 1, Lit (js ''</li>''), Cap 2] html)"

text \<open>
  \<open>formatLLMResponse\<close> of src/llm.js: \<open>null\<close> (here \<open>None\<close>) on a falsy text, the markup
  otherwise.
\<close>

definition formatLLMResponse :: "jsval \<Rightarrow> jsstring option" where
  "formatLLMResponse text =
     (if \<not> truthy text then None
      else Some (listMarkup (js ''<p>'' @ inlineMarkup (toStr text) @ js ''</p>'')))"

text \<open>
  The variant of the study-buddy client (the second \<open>formatLLMResponse\<close> of
  src/unnamed/part_002), with one more list replacement for lines that start with a bullet.
\<close>

definition listMarkup_bullet :: "jsstring \<Rightarrow> jsstring" where
  "listMarkup_bullet html =
     replace False re_ul [Lit (js ''<ul>''), Whole, Lit (js ''</ul>'')] (
     replace False re_li_bullet [Lit (js ''<li>''), Cap 1, Lit (js ''</li>''), Cap 2] (
     replace False re_li [Lit (js ''<li>''), Cap 1, Lit (js ''</li>''), Cap 2] html))"

definition formatLLMResponse_bullet :: "jsval \<Rightarrow> jsstring option" where
  "formatLLMResponse_bullet text =
     (if \<not> truthy text then None
      else Some (listMarkup_bullet (js ''<p>'' @ inlineMarkup (toStr text) @ js ''</p>'')))"

section \<open>Local query processing (processQuery, src/unnamed/part_001)\<close>

text \<open>
  \<open>processQuery\<close> builds either a markup string or a DOM element (a \<open>div\<close> whose
  \<open>innerHTML\<close> was assigned), and hands it to \<open>addMessage\<close>, which assigns a string to
  \<open>contentDiv.innerHTML\<close> as it is. The model returns the response that is built.
\<close>

datatype response = Html jsstring | Element jsstring

text \<open>
  The catalog functions \<open>getAllSubjects\<close>, \<open>findSubject\<close>, \<open>findSubjectUnit\<close> and
  \<open>searchTopics\<close> are called by this file and defined in none of the sources: they are
  parameters of the model. \<open>findSubjectUnit\<close> returns nothing, or an object with a subject
  and possibly a unit; \<open>searchTopics\<close> returns objects with the five properties that
  \<open>createTopicResults\<close> reads.
\<close>

record topic_match =
  tm_subjectCode :: jsstring
  tm_subject :: jsstring
  tm_unit :: nat
  tm_unitTitle :: jsstring
  tm_topic :: jsstring

record data_js =
  getAllSubjects :: "subject list"
  findSubject :: "jsstring \<Rightarrow> subject option"
  findSubjectUnit :: "jsstring \<Rightarrow> nat \<Rightarrow> (subject \<times> syllabus_unit option) option"
  searchTopics :: "jsstring \<Rightarrow> topic_match list"

subsection \<open>Templates\<close>

definition createSyllabusCard :: "subject \<Rightarrow> jsstring" where
  \<open>createSyllabusCard subject =
     js ''\<newline>        <p>Here's the complete syllabus for <strong>'' @ name subject @
     js ''</strong>:</p>\<newline>        <div class="syllabus-card">\<newline>            <div class="syllabus-header">\<newline>                <h3>'' @
     fullName subject @ js ''</h3>\<newline>                <span class="code">'' @ code subject @
     js ''</span>\<newline>            </div>\<newline>            <div class="syllabus-meta">\<newline>                <span>'' @
     [0xD83D, 0xDCDA] @ js '' '' @ numberToString (credits subject) @
     js '' Credits</span>\<newline>                <span>'' @ [0xD83D, 0xDCCB] @ js '' '' @
     type subject @ js ''</span>\<newline>                <span>'' @ [0xD83D, 0xDCD6] @ js '' '' @
     numberToString (length (units subject)) @
     js '' Units</span>\<newline>            </div>\<newline>            <div class="syllabus-units">\<newline>                '' @
     concat (map (\<lambda>unit. js ''\<newline>                    <div class="unit">\<newline>                        <div class="unit-title">Unit '' @
     numberToString (number unit) @ js '': '' @ title unit @
     js ''</div>\<newline>                        <ul class="unit-topics">\<newline>                            '' @
     concat (map (\<lambda>topic. js ''<li>'' @ topic @ js ''</li>'') (topics unit)) @
     js ''\<newline>                        </ul>\<newline>                    </div>\<newline>                '') (units subject)) @
     js ''\<newline>            </div>\<newline>        </div>\<newline>    ''\<close>

definition createUnitCard :: "subject \<Rightarrow> syllabus_unit \<Rightarrow> jsstring" where
  \<open>createUnitCard subject unit =
     js ''\<newline>        <p>Here's <strong>Unit '' @ numberToString (number unit) @
     js ''</strong> of <strong>'' @ name subject @
     js ''</strong>:</p>\<newline>        <div class="syllabus-card">\<newline>            <div class="syllabus-header">\<newline>                <h3>'' @
     title unit @ js ''</h3>\<newline>                <span class="code">'' @ code subject @
     js '' - Unit '' @ numberToString (number unit) @
     js ''</span>\<newline>            </div>\<newline>            <div class="syllabus-units">\<newline>                <div class="unit">\<newline>                    <ul class="unit-topics">\<newline>                        '' @
     concat (map (\<lambda>topic. js ''<li>'' @ topic @ js ''</li>'') (topics unit)) @
     js ''\<newline>                    </ul>\<newline>                </div>\<newline>            </div>\<newline>        </div>\<newline>        <div class="suggestions" style="margin-top: 12px;">\<newline>            '' @
     (if number unit > 1 then js ''<button class="suggestion-btn" onclick="askQuestion('Show me '' @
     name subject @ js '' Unit '' @ numberToString (number unit - 1) @ [0x0027] @ js '')">'' @
     [0x2190] @ js '' Unit '' @ numberToString (number unit - 1) @ js ''</button>'' else []) @
     js ''\<newline>            '' @
     (if number unit < length (units subject) then js ''<button class="suggestion-btn" onclick="askQuestion('Show me '' @
     name subject @ js '' Unit '' @ numberToString (number unit + 1) @ [0x0027] @ js '')">Unit '' @
     numberToString (number unit + 1) @ js '' '' @ [0x2192] @ js ''</button>'' else []) @
     js ''\<newline>            <button class="suggestion-btn" onclick="askQuestion('What is the complete syllabus for '' @
     name subject @ js ''?')">Full Syllabus</button>\<newline>        </div>\<newline>    ''\<close>

definition createSubjectsList :: "subject list \<Rightarrow> jsstring" where
  \<open>createSubjectsList allSubjects =
     js ''\<newline>        <p>Here are all available <strong>CINTEL</strong> subjects:</p>\<newline>        <div class="subjects-list">\<newline>            '' @
     concat (map (\<lambda>s. js ''\<newline>                <div class="subject-item" onclick="askQuestion('What is the syllabus for '' @
     name s @
     js ''?')">\<newline>                    <div>\<newline>                        <div class="name">'' @
     fullName s @ js ''</div>\<newline>                        <div class="code">'' @ code s @
     js '' '' @ [0x2022] @ js '' '' @ numberToString (credits s) @ js '' Credits '' @ [0x2022] @
     js '' '' @ type s @
     js ''</div>\<newline>                    </div>\<newline>                    <span>'' @ [0x2192] @
     js ''</span>\<newline>                </div>\<newline>            '') (allSubjects)) @
     js ''\<newline>        </div>\<newline>    ''\<close>

text \<open>
  \<open>createTopicResults\<close> groups the matches under the key \<open>subjectCode-unit\<close>, in the
  order in which the keys first appear (the keys hold a hyphen, so none is an array index
  and \<open>Object.values\<close> keeps the insertion order).
\<close>

record topic_group =
  g_subject :: jsstring
  g_subjectCode :: jsstring
  g_unit :: nat
  g_unitTitle :: jsstring
  g_topics :: "jsstring list"

definition groupKey :: "topic_match \<Rightarrow> jsstring" where
  "groupKey t = tm_subjectCode t @ js ''-'' @ numberToString (tm_unit t)"

fun pushTopic :: "jsstring \<Rightarrow> jsstring \<Rightarrow> (jsstring \<times> topic_group) list \<Rightarrow> (jsstring \<times> topic_group) list" where
  "pushTopic key topic [] = []"
| "pushTopic key topic ((k, g) # acc) =
     (if k = key then (k, g\<lparr>g_topics := g_topics g @ [topic]\<rparr>) # acc
      else (k, g) # pushTopic key topic acc)"

definition groupStep :: "(jsstring \<times> topic_group) list \<Rightarrow> topic_match \<Rightarrow> (jsstring \<times> topic_group) list" where
  "groupStep acc t =
     pushTopic (groupKey t) (tm_topic t)
       (if map_of acc (groupKey t) = None
        then acc @ [(groupKey t, \<lparr>g_subject = tm_subject t, g_subjectCode = tm_subjectCode t,
                                   g_unit = tm_unit t, g_unitTitle = tm_unitTitle t, g_topics = []\<rparr>)]
        else acc)"

definition firstTopic :: "topic_group \<Rightarrow> jsstring" where
  "firstTopic r = (case g_topics r of [] \<Rightarrow> js ''undefined'' | t # ts \<Rightarrow> t)"

definition renderTopicResults :: "topic_match list \<Rightarrow> topic_group list \<Rightarrow> jsstring" where
  \<open>renderTopicResults topics' results =
     js ''\<newline>        <p>Found <strong>'' @ numberToString (length topics') @
     js ''</strong> matching topic(s):</p>\<newline>        <div class="subjects-list">\<newline>            '' @
     concat (map (\<lambda>r. js ''\<newline>                <div class="subject-item" onclick="askQuestion('Show me '' @
     g_subject r @ js '' Unit '' @ numberToString (g_unit r) @ [0x0027] @
     js '')">\<newline>                    <div>\<newline>                        <div class="name">'' @
     firstTopic r @ js ''</div>\<newline>                        <div class="code">'' @ g_subject r @
     js '' - Unit '' @ numberToString (g_unit r) @ js '': '' @ g_unitTitle r @
     js ''</div>\<newline>                    </div>\<newline>                    <span>'' @ [0x2192] @
     js ''</span>\<newline>                </div>\<newline>            '') (results)) @
     js ''\<newline>        </div>\<newline>    ''\<close>

definition createTopicResults :: "topic_match list \<Rightarrow> jsstring" where
  "createTopicResults topics' = renderTopicResults topics' (map snd (foldl groupStep [] topics'))"

subsection \<open>Subject resolution (findSubjectInQuery)\<close>

text \<open>The object \<open>keywords\<close> of the source, as the list of its entries in order.\<close>

definition keywordTable :: "(jsstring \<times> jsstring) list" where
  "keywordTable =
     [(js ''agent'', js ''AgentOps''), (js ''agentops'', js ''AgentOps''),
      (js ''ml'', js ''Machine Learning''), (js ''machine'', js ''Machine Learning''),
      (js ''deep'', js ''Deep Learning''), (js ''dl'', js ''Deep Learning''),
      (js ''nlp'', js ''NLP''), (js ''natural'', js ''NLP''), (js ''language'', js ''NLP''),
      (js ''cv'', js ''Computer Vision''), (js ''vision'', js ''Computer Vision''),
      (js ''image'', js ''Computer Vision'')]"

fun findByKeyword :: "data_js \<Rightarrow> jsstring \<Rightarrow> (jsstring \<times> jsstring) list \<Rightarrow> subject option" where
  "findByKeyword api q [] = None"
| "findByKeyword api q ((keyword, subjectName) # kws) =
     (if str_includes q keyword then findSubject api subjectName else findByKeyword api q kws)"

fun findInSubjects :: "data_js \<Rightarrow> jsstring \<Rightarrow> subject list \<Rightarrow> subject option" where
  "findInSubjects api q [] = findByKeyword api q keywordTable"
| "findInSubjects api q (subject # ss) =
     (if str_includes q (toLowerCase (name subject)) \<or>
         str_includes q (toLowerCase (code subject)) \<or>
         str_includes q (toLowerCase (fullName subject))
      then Some subject else findInSubjects api q ss)"

text \<open>
  \<open>findSubjectInQuery\<close>: the global \<open>syllabusData.subjects\<close> is the parameter
  \<open>syllabusSubjects\<close>.
\<close>

definition findSubjectInQuery :: "data_js \<Rightarrow> subject list \<Rightarrow> jsstring \<Rightarrow> subject option" where
  "findSubjectInQuery api syllabusSubjects query =
     findInSubjects api (toLowerCase query) syllabusSubjects"

subsection \<open>The branches of processQuery\<close>

text \<open>\<open>/unit\s*(\d+)/i\<close>\<close>

definition re_unit :: regex where
  "re_unit = Seq (lits (js ''unit'')) (Seq (Star True Space) (Grp 1 (Plus True Digit)))"

text \<open>
  \<open>unitMatch ? parseInt(unitMatch[1]) : null\<close>: \<open>None\<close> is \<open>null\<close>.
\<close>

definition unitNumOf :: "jsstring \<Rightarrow> nat option" where
  "unitNumOf q =
     (case search True re_unit None q of None \<Rightarrow> None | Some st \<Rightarrow> Some (parseInt (capture st 1)))"

definition unitNotFound :: "nat \<Rightarrow> subject \<Rightarrow> jsstring" where
  \<open>unitNotFound unitNum subject =
     js ''<p>I couldn't find Unit '' @ numberToString unitNum @ js '' for <strong>'' @ name subject @
     js ''</strong>. This subject has '' @ numberToString (length (units subject)) @
     js '' units.</p>''\<close>

definition noSubjectForUnit :: jsstring where
  \<open>noSubjectForUnit =
     js ''<p>I couldn't identify the subject. Try asking about a specific subject like:</p>\<newline>                <div class="suggestions">\<newline>                    <button class="suggestion-btn" onclick="askQuestion('What is Unit 1 of AgentOps?')">Unit 1 of AgentOps</button>\<newline>                    <button class="suggestion-btn" onclick="askQuestion('Show me Deep Learning Unit 2')">Deep Learning Unit 2</button>\<newline>                </div>''\<close>

text \<open>
  The unit branch. \<open>subject && unitNum\<close> holds when a subject was found and the number
  is neither \<open>null\<close> nor \<open>0\<close>; \<open>result && result.unit\<close> when the lookup returned an
  object with a unit.
\<close>

definition unitAnswer :: "data_js \<Rightarrow> subject option \<Rightarrow> nat option \<Rightarrow> response" where
  "unitAnswer api subject unitNum =
     (case subject of
        Some s \<Rightarrow>
          (case unitNum of
             Some n \<Rightarrow>
               if n \<noteq> 0
               then (case findSubjectUnit api (name s) n of
                       Some (rs, Some ru) \<Rightarrow> Element (createUnitCard rs ru)
                     | Some (rs, None) \<Rightarrow> Html (unitNotFound n s)
                     | None \<Rightarrow> Html (unitNotFound n s))
               else Element (createSyllabusCard s)
           | None \<Rightarrow> Element (createSyllabusCard s))
      | None \<Rightarrow> Html noSubjectForUnit)"

definition subjectNotFound :: jsstring where
  \<open>subjectNotFound =
     js ''<p>I couldn't find that subject. Here are the available subjects:</p>''\<close>

definition syllabusAnswer :: "data_js \<Rightarrow> subject option \<Rightarrow> response" where
  "syllabusAnswer api subject =
     (case subject of
        Some s \<Rightarrow> Element (createSyllabusCard s)
      | None \<Rightarrow> Html (subjectNotFound @ createSubjectsList (getAllSubjects api)))"

text \<open>\<open>/topic|where|find|is|the|in|which/gi\<close>, replaced by the empty string, then \<open>trim\<close>.\<close>

definition re_stopwords :: regex where
  "re_stopwords =
     Alt (lits (js ''topic'')) (Alt (lits (js ''where'')) (Alt (lits (js ''find''))
       (Alt (lits (js ''is'')) (Alt (lits (js ''the'')) (Alt (lits (js ''in'')) (lits (js ''which'')))))))"

definition topicFragment :: "jsstring \<Rightarrow> jsstring" where
  "topicFragment q = trim (replace True re_stopwords [] q)"

definition topicNotFound :: jsstring where
  \<open>topicNotFound =
     js ''<p>I couldn't find that topic. Try searching for something else or view a subject's syllabus.</p>''\<close>

definition topicAnswer :: "topic_match list \<Rightarrow> response" where
  "topicAnswer topics' =
     (if length topics' > 0 then Html (createTopicResults topics') else Html topicNotFound)"

definition notSure :: jsstring where
  \<open>notSure =
     js ''<p>I'm not sure what you're looking for. Here's what I can help you with:</p>\<newline>                <div class="suggestions">\<newline>                    <button class="suggestion-btn" onclick="askQuestion('List all subjects')">'' @
     [0xD83D, 0xDCCB] @
     js '' All Subjects</button>\<newline>                    <button class="suggestion-btn" onclick="askQuestion('What is the syllabus for Machine Learning?')">'' @
     [0xD83E, 0xDD16] @
     js '' ML Syllabus</button>\<newline>                    <button class="suggestion-btn" onclick="askQuestion('Show me Deep Learning Unit 4')">'' @
     [0xD83E, 0xDDE0] @ js '' DL Unit 4</button>\<newline>                </div>''\<close>

definition defaultAnswer :: "subject option \<Rightarrow> response" where
  "defaultAnswer subject =
     (case subject of Some s \<Rightarrow> Element (createSyllabusCard s) | None \<Rightarrow> Html notSure)"

text \<open>The chain of \<open>if\<close> and \<open>else if\<close> on the lowercased query \<open>q\<close>.\<close>

definition respond :: "data_js \<Rightarrow> subject list \<Rightarrow> jsstring \<Rightarrow> response" where
  "respond api syllabusSubjects q =
     (if str_includes q (js ''list'') \<and> (str_includes q (js ''subject'') \<or> str_includes q (js ''all''))
      then Html (createSubjectsList (getAllSubjects api))
      else if str_includes q (js ''unit'')
      then unitAnswer api (findSubjectInQuery api syllabusSubjects q) (unitNumOf q)
      else if str_includes q (js ''syllabus'') \<or> str_includes q (js ''what is'') \<or>
              str_includes q (js ''show me'') \<or> str_includes q (js ''tell me about'')
      then syllabusAnswer api (findSubjectInQuery api syllabusSubjects q)
      else if str_includes q (js ''topic'') \<or> str_includes q (js ''where'') \<or> str_includes q (js ''find'')
      then topicAnswer (searchTopics api (topicFragment q))
      else defaultAnswer (findSubjectInQuery api syllabusSubjects q))"

definition processQuery :: "data_js \<Rightarrow> subject list \<Rightarrow> jsstring \<Rightarrow> response" where
  "processQuery api syllabusSubjects query = respond api syllabusSubjects (toLowerCase query)"

text \<open>The markup of a response: the string, or the \<open>innerHTML\<close> of the element.\<close>

fun markupOf :: "response \<Rightarrow> jsstring" where
  "markupOf (Html s) = s"
| "markupOf (Element s) = s"

section \<open>Remote backends (callLLM)\<close>

text \<open>
  The network is an input of the model. An awaited promise either rejects (the \<open>await\<close>
  throws into the enclosing \<open>catch\<close>) or resolves to a value; a response carries a
  status, and \<open>response.ok\<close> holds for the statuses 200 to 299. Of a parsed body the
  model keeps what the code reads. The request that is sent (the prompt, the history
  window) is not modelled, so the syllabus context appears only where a result depends on
  it. Each function takes the global \<open>conversationHistory\<close> and returns it with its result.
\<close>

datatype 'a attempt = Rejected | Resolved 'a

definition response_ok :: "nat \<Rightarrow> bool" where
  "response_ok status = (200 \<le> status \<and> status \<le> 299)"

subsection \<open>The direct model call (callLLM of src/llm.js)\<close>

text \<open>
  \<open>data_error\<close>: \<open>data.error\<close> is truthy; \<open>data_content\<close>:
  \<open>data.choices?.[0]?.message?.content\<close>. A body that is not JSON, or is the JSON
  \<open>null\<close>, makes \<open>response.json()\<close> or the first property read throw: \<open>Rejected\<close>.
\<close>

record chat_data =
  data_error :: bool
  data_content :: jsval

record chat_response =
  chat_status :: nat
  chat_text :: "jsstring attempt"
  chat_json :: "chat_data attempt"

definition rateLimitNotice :: jsstring where
  "rateLimitNotice = [0x26A0, 0xFE0F] @ js '' Rate limit reached. Please wait a moment and try again.''"

definition callLLM :: "turn list \<Rightarrow> jsstring \<Rightarrow> chat_response attempt \<Rightarrow> jsval \<times> turn list" where
  "callLLM conversationHistory userMessage fetched =
     (let h = addToHistory conversationHistory User userMessage in
      case fetched of
        Rejected \<Rightarrow> (Null, h)
      | Resolved response \<Rightarrow>
          if \<not> response_ok (chat_status response)
          then (case chat_text response of
                  Rejected \<Rightarrow> (Null, h)
                | Resolved errorText \<Rightarrow>
                    if chat_status response = 429 then (Str rateLimitNotice, h) else (Null, h))
          else (case chat_json response of
                  Rejected \<Rightarrow> (Null, h)
                | Resolved data \<Rightarrow>
                    if data_error data then (Null, h)
                    else if truthy (data_content data)
                    then (data_content data, addToHistory h Assistant (toStr (data_content data)))
                    else (Null, h)))"

subsection \<open>The retrieval service with a direct fallback (first callLLM of src/unnamed/part_002)\<close>

record rag_source =
  src_subject :: jsval
  src_unit :: jsval

text \<open>\<open>query_answer\<close> is \<open>data.response\<close>, \<open>query_sources\<close> is \<open>data.sources\<close> (absent: \<open>None\<close>).\<close>

record query_data =
  query_answer :: jsval
  query_sources :: "rag_source list option"

record query_response =
  query_status :: nat
  query_json :: "query_data attempt"

definition sourceInfo :: "rag_source list \<Rightarrow> jsstring" where
  "sourceInfo sources =
     join (js ''\<newline>'')
       (map (\<lambda>s. [0xD83D, 0xDCDA] @ js '' '' @ toStr (src_subject s) @ js '' - '' @ toStr (src_unit s))
          (filter (\<lambda>s. src_subject s \<noteq> Str (js ''Unknown'')) sources))"

definition withSources :: "jsval \<Rightarrow> rag_source list option \<Rightarrow> jsval" where
  "withSources assistantMessage sources =
     (case sources of
        None \<Rightarrow> assistantMessage
      | Some srcs \<Rightarrow>
          if length srcs > 0
          then Str (toStr assistantMessage @
                    (if sourceInfo srcs \<noteq> []
                     then js ''\<newline>\<newline>---\<newline>*Sources:*\<newline>'' @ sourceInfo srcs else []))
          else assistantMessage)"

text \<open>
  \<open>fallbackLLMCall\<close>: \<open>geminiKey\<close> is the configured key or
  \<open>localStorage.getItem('GEMINI_API_KEY')\<close>; the body is read as
  \<open>data.candidates?.[0]?.content?.parts?.[0]?.text\<close>.
\<close>

record gemini_response =
  gemini_status :: nat
  gemini_json :: "jsval attempt"

definition noKeyNotice :: jsstring where
  "noKeyNotice = [0x26A0, 0xFE0F] @ js '' Backend unavailable and no API key configured. Please set up the backend or add a Gemini API key.''"

definition noTextNotice :: jsstring where
  "noTextNotice = js ''I couldn't generate a response.''"

definition troubleNotice :: jsstring where
  "troubleNotice = js ''Sorry, I'm having trouble connecting. Please try again.''"

definition fallbackLLMCall :: "jsval \<Rightarrow> gemini_response attempt \<Rightarrow> jsval" where
  "fallbackLLMCall geminiKey fetched =
     (if \<not> truthy geminiKey then Str noKeyNotice
      else case fetched of
        Rejected \<Rightarrow> Str troubleNotice
      | Resolved response \<Rightarrow>
          if response_ok (gemini_status response)
          then (case gemini_json response of
                  Rejected \<Rightarrow> Str troubleNotice
                | Resolved text \<Rightarrow> if truthy text then text else Str noTextNotice)
          else Str troubleNotice)"

definition callLLM_studyBuddy ::
    "turn list \<Rightarrow> jsstring \<Rightarrow> query_response attempt \<Rightarrow> jsval \<Rightarrow> gemini_response attempt \<Rightarrow> jsval \<times> turn list" where
  "callLLM_studyBuddy conversationHistory userMessage fetched geminiKey fetched2 =
     (let h = addToHistory conversationHistory User userMessage in
      case fetched of
        Rejected \<Rightarrow> (fallbackLLMCall geminiKey fetched2, h)
      | Resolved response \<Rightarrow>
          if response_ok (query_status response)
          then (case query_json response of
                  Rejected \<Rightarrow> (fallbackLLMCall geminiKey fetched2, h)
                | Resolved data \<Rightarrow>
                    (withSources (query_answer data) (query_sources data),
                     if truthy (query_answer data)
                     then addToHistory h Assistant (toStr (query_answer data)) else h))
          else (fallbackLLMCall geminiKey fetched2, h))"

subsection \<open>The retrieval service with the local responder (second callLLM of src/unnamed/part_002)\<close>

definition sourceLine :: "rag_source list \<Rightarrow> jsstring" where
  "sourceLine sources =
     js ''\<newline>\<newline>---\<newline>*Source: '' @
     join (js '', '') (map (\<lambda>s. [0xD83D, 0xDCDA] @ js '' '' @ toStr (src_subject s)) sources) @
     js ''*''"

definition withSource :: "jsval \<Rightarrow> rag_source list option \<Rightarrow> jsval" where
  "withSource assistantMessage sources =
     (case sources of
        None \<Rightarrow> assistantMessage
      | Some srcs \<Rightarrow>
          if length srcs > 0 then Str (toStr assistantMessage @ sourceLine srcs)
          else assistantMessage)"

text \<open>
  A response that is not ok is turned into a thrown \<open>Error\<close>, whatever its status, and
  the \<open>catch\<close> answers with \<open>generateLocalResponse\<close>.
\<close>

definition callLLM_backend ::
    "turn list \<Rightarrow> jsstring \<Rightarrow> syllabusData \<Rightarrow> query_response attempt \<Rightarrow> jsval \<times> turn list" where
  "callLLM_backend conversationHistory userMessage syllabusContext fetched =
     (let h = addToHistory conversationHistory User userMessage in
      case fetched of
        Rejected \<Rightarrow> (Str (generateLocalResponse userMessage syllabusContext), h)
      | Resolved response \<Rightarrow>
          if \<not> response_ok (query_status response)
          then (Str (generateLocalResponse userMessage syllabusContext), h)
          else (case query_json response of
                  Rejected \<Rightarrow> (Str (generateLocalResponse userMessage syllabusContext), h)
                | Resolved data \<Rightarrow>
                    (withSource (query_answer data) (query_sources data),
                     if truthy (query_answer data)
                     then addToHistory h Assistant (toStr (query_answer data)) else h)))"

section \<open>An example catalog\<close>

text \<open>
  The catalog data is loaded from a file that is not among the sources; the examples below
  use one subject with five units.
\<close>

definition deepLearning :: subject where
  "deepLearning =
     \<lparr>code = js ''21AIC401T'', name = js ''Deep Learning'', fullName = js ''Deep Learning Techniques'',
      credits = 3, type = js ''Theory'',
      units =
       [\<lparr>number = 1, title = js ''Foundations'', topics = [js ''Perceptron'', js ''Activation Functions'']\<rparr>,
        \<lparr>number = 2, title = js ''Optimization'', topics = [js ''Gradient Descent'']\<rparr>,
        \<lparr>number = 3, title = js ''Training Deep Networks'', topics = [js ''Backpropagation'', js ''Regularization'']\<rparr>,
        \<lparr>number = 4, title = js ''Convolutional Networks'', topics = [js ''Pooling'']\<rparr>,
        \<lparr>number = 5, title = js ''Sequence Models'', topics = [js ''LSTM'']\<rparr>]\<rparr>"

definition exampleCatalog :: syllabusData where
  "exampleCatalog = \<lparr>subjects = Some [deepLearning]\<rparr>"

section \<open>What the specification calls a successful primary call\<close>

text \<open>
  In the words of the specification (tier 1): "HTTP success with a non-empty response
  body". \<open>spec_chat_success\<close> and \<open>spec_query_success\<close> give the assistant message of
  such a call, for the two primary services, and nothing for a call that failed (network
  error, a status outside 200 to 299, a body that cannot be parsed or reports an error, or
  an empty message).
\<close>

definition spec_chat_success :: "chat_response attempt \<Rightarrow> jsstring option" where
  "spec_chat_success fetched =
     (case fetched of
        Rejected \<Rightarrow> None
      | Resolved response \<Rightarrow>
          (case chat_json response of
             Rejected \<Rightarrow> None
           | Resolved data \<Rightarrow>
               if response_ok (chat_status response) \<and> \<not> data_error data \<and> truthy (data_content data)
               then Some (toStr (data_content data)) else None))"

definition spec_query_success :: "query_response attempt \<Rightarrow> jsstring option" where
  "spec_query_success fetched =
     (case fetched of
        Rejected \<Rightarrow> None
      | Resolved response \<Rightarrow>
          (case query_json response of
             Rejected \<Rightarrow> None
           | Resolved data \<Rightarrow>
               if response_ok (query_status response) \<and> truthy (query_answer data)
               then Some (toStr (query_answer data)) else None))"

section \<open>Properties of the History Ring\<close>

lemma drop_append_le: "n \<le> length xs \<Longrightarrow> drop n xs @ ys = drop n (xs @ ys)"
  by simp

lemma addToHistory_drop:
  assumes "length h \<le> MAX_HISTORY"
  shows "addToHistory h r c = drop (Suc (length h) - MAX_HISTORY) (h @ [\<lparr>role = r, content = c\<rparr>])"
proof (cases "length h < MAX_HISTORY")
  case True
  then show ?thesis by (simp add: addToHistory_def Let_def)
next
  case False
  with assms have "length h = MAX_HISTORY" by simp
  then show ?thesis by (cases h) (simp_all add: addToHistory_def Let_def MAX_HISTORY_def)
qed

lemma addToHistory_length:
  "length h \<le> MAX_HISTORY \<Longrightarrow> length (addToHistory h r c) \<le> MAX_HISTORY"
  by (auto simp: addToHistory_def Let_def)

lemma appendAll_drop:
  "length h \<le> MAX_HISTORY \<Longrightarrow>
   appendAll h ops = drop (length h + length ops - MAX_HISTORY) (h @ map turnOf ops)"
proof (induction ops arbitrary: h)
  case Nil
  then show ?case by simp
next
  case (Cons p ops)
  obtain r c where p: "p = (r, c)" by (cases p)
  define d where "d = Suc (length h) - MAX_HISTORY"
  define all where "all = h @ turnOf p # map turnOf ops"
  let ?h' = "addToHistory h r c"
  have len: "length ?h' \<le> MAX_HISTORY" using Cons.prems by (rule addToHistory_length)
  have h': "?h' = drop d (h @ [turnOf p])"
    using addToHistory_drop [OF Cons.prems] by (simp add: p turnOf_def d_def)
  have d_le: "d \<le> Suc (length h)" by (simp add: d_def)
  have "drop d (h @ [turnOf p]) @ map turnOf ops = drop d ((h @ [turnOf p]) @ map turnOf ops)"
    by (rule drop_append_le) (simp add: d_le)
  then have cat: "?h' @ map turnOf ops = drop d all"
    by (simp add: h' all_def)
  have len': "length ?h' = Suc (length h) - d" by (simp add: h')
  have "appendAll h (p # ops) = appendAll ?h' ops" by (simp add: p)
  also have "\<dots> = drop (length ?h' + length ops - MAX_HISTORY) (?h' @ map turnOf ops)"
    by (rule Cons.IH [OF len])
  also have "\<dots> = drop (length ?h' + length ops - MAX_HISTORY + d) all"
    by (simp add: cat)
  also have "length ?h' + length ops - MAX_HISTORY + d = length h + length (p # ops) - MAX_HISTORY"
    using Cons.prems by (simp add: len' d_def)
  finally show ?case by (simp add: all_def)
qed

text \<open>
  C2. Starting from the empty history of a fresh session, after any sequence of
  \<open>addToHistory\<close> calls the history holds at most \<open>MAX_HISTORY = 10\<close> turns, and it holds
  exactly the last 10 appended turns (all of them when fewer were appended), in the order
  in which they were appended: after \<open>10 + k\<close> appends the first \<open>k\<close> are gone.
\<close>

theorem history_ring_bounded_fifo:
  "length (appendAll [] ops) \<le> MAX_HISTORY \<and>
   appendAll [] ops = drop (length ops - MAX_HISTORY) (map turnOf ops)"
  using appendAll_drop [of "[]" ops] by (simp add: MAX_HISTORY_def)

theorem history_ring_bounded_fifo_witness:
  "appendAll []
     [(User, js ''q1''), (Assistant, js ''a1''), (User, js ''q2''), (Assistant, js ''a2''),
      (User, js ''q3''), (Assistant, js ''a3''), (User, js ''q4''), (Assistant, js ''a4''),
      (User, js ''q5''), (Assistant, js ''a5''), (User, js ''q6''), (Assistant, js ''a6'')]
   = map turnOf
     [(User, js ''q2''), (Assistant, js ''a2''),
      (User, js ''q3''), (Assistant, js ''a3''), (User, js ''q4''), (Assistant, js ''a4''),
      (User, js ''q5''), (Assistant, js ''a5''), (User, js ''q6''), (Assistant, js ''a6'')]"
  using history_ring_bounded_fifo
    [of "[(User, js ''q1''), (Assistant, js ''a1''), (User, js ''q2''), (Assistant, js ''a2''),
      (User, js ''q3''), (Assistant, js ''a3''), (User, js ''q4''), (Assistant, js ''a4''),
      (User, js ''q5''), (Assistant, js ''a5''), (User, js ''q6''), (Assistant, js ''a6'')]"]
  by (simp add: MAX_HISTORY_def)

section \<open>Properties of the local responder\<close>

lemma js_Cons_not_Nil: "js (c # cs) \<noteq> []"
  by (simp add: js_def)

lemma subjectDump_not_Nil: "subjectDump s \<noteq> []"
  by (simp add: subjectDump_def js_def)

lemma subjectListing_not_Nil: "subjectListing ss \<noteq> []"
  by (simp add: subjectListing_def js_def)

lemma searchSubjects_not_Nil: "searchSubjects q ss = Some r \<Longrightarrow> r \<noteq> []"
  by (induction ss) (auto simp: subjectDump_not_Nil split: if_splits)

lemma js_eq_Nil: "js s = [] \<longleftrightarrow> s = []"
  by (simp add: js_def)

lemma templates_not_Nil:
  "createSyllabusCard s \<noteq> []" "createUnitCard s u \<noteq> []" "createSubjectsList ss \<noteq> []"
  "createTopicResults ts \<noteq> []" "unitNotFound n s \<noteq> []" "noSubjectForUnit \<noteq> []"
  "subjectNotFound \<noteq> []" "topicNotFound \<noteq> []" "notSure \<noteq> []"
  by (simp_all add: createSyllabusCard_def createUnitCard_def createSubjectsList_def
      createTopicResults_def renderTopicResults_def unitNotFound_def noSubjectForUnit_def
      subjectNotFound_def topicNotFound_def notSure_def js_eq_Nil)

lemma respond_not_Nil: "markupOf (respond api syllabusSubjects q) \<noteq> []"
  by (auto simp: respond_def unitAnswer_def syllabusAnswer_def topicAnswer_def defaultAnswer_def
      templates_not_Nil split: option.splits prod.splits)

text \<open>
  C1. For every query string (the empty one included) and every catalog object (with a
  subject list, an empty one or none), \<open>generateLocalResponse\<close> returns a non-empty
  string. The function is total on these inputs: no operation of its body can throw on a
  string query and a catalog whose subjects carry a name, a code and units with topics.
  The local search of \<open>processQuery\<close> builds a non-empty answer as well, for every query
  and whatever the catalog functions return.
\<close>

theorem generateLocalResponse_nonempty:
  "generateLocalResponse query syllabusData \<noteq> [] \<and>
   markupOf (processQuery api syllabusSubjects query) \<noteq> []"
  by (auto simp: generateLocalResponse_def subjectListing_not_Nil processQuery_def respond_not_Nil
      dest: searchSubjects_not_Nil split: option.splits)

theorem generateLocalResponse_nonempty_witness:
  "generateLocalResponse [] \<lparr>subjects = None\<rparr> \<noteq> [] \<and>
   generateLocalResponse [] \<lparr>subjects = Some []\<rparr> \<noteq> []"
  using generateLocalResponse_nonempty [of "[]" "\<lparr>subjects = None\<rparr>"]
    generateLocalResponse_nonempty [of "[]" "\<lparr>subjects = Some []\<rparr>"]
  by simp

section \<open>Properties of the response formatter\<close>

text \<open>
  C10. On a falsy text (\<open>null\<close>, \<open>undefined\<close> or the empty string) \<open>formatLLMResponse\<close>
  returns \<open>null\<close>, not markup (so not an empty paragraph either); on every non-empty
  string it returns a markup string. Both variants of the formatter agree on this.
\<close>

theorem formatLLMResponse_null_iff_falsy:
  "formatLLMResponse Null = None \<and> formatLLMResponse Undefined = None \<and>
   formatLLMResponse (Str []) = None \<and>
   formatLLMResponse_bullet Null = None \<and> formatLLMResponse_bullet Undefined = None \<and>
   formatLLMResponse_bullet (Str []) = None \<and>
   (t \<noteq> [] \<longrightarrow> (\<exists>html. formatLLMResponse (Str t) = Some html) \<and>
                (\<exists>html. formatLLMResponse_bullet (Str t) = Some html))"
  by (simp add: formatLLMResponse_def formatLLMResponse_bullet_def)

theorem formatLLMResponse_null_iff_falsy_witness:
  "formatLLMResponse (Str []) = None \<and> (\<exists>html. formatLLMResponse (Str (js ''ok'')) = Some html)"
  using formatLLMResponse_null_iff_falsy [of "js ''ok''"] by (simp add: js_def)

section \<open>Evaluation of the regular expressions\<close>

lemmas re_defs = re_h4_def re_h3_def re_h2_def re_strong_def re_em_def re_code_def re_nn_def re_n_def
  re_li_def re_li_bullet_def re_ul_def tag_def
lemmas eval_defs = js_def replace_def replace_g.simps matchAt_def consume_def isLineTerminator_def
lemmas format_defs = formatLLMResponse_def formatLLMResponse_bullet_def listMarkup_def
  listMarkup_bullet_def inlineMarkup_def

subsection \<open>Where no match is possible\<close>

text \<open>A literal matches only where the input starts with it.\<close>

lemma m_lits_fails:
  "\<not> startsWith (rest st) w \<Longrightarrow> m False (lits w) st = []"
proof (induction w arbitrary: st)
  case Nil
  then show ?case by simp
next
  case (Cons c w)
  show ?case
  proof (cases "rest st")
    case Nil
    then show ?thesis by (simp add: consume_def)
  next
    case (Cons x xs)
    show ?thesis
    proof (cases "x = c")
      case True
      with Cons.prems Cons have "\<not> startsWith (rest (st\<lparr>prev := Some x, rest := xs\<rparr>)) w" by simp
      then have "m False (lits w) (st\<lparr>prev := Some x, rest := xs\<rparr>) = []" by (rule Cons.IH)
      with True Cons show ?thesis by (simp add: consume_def)
    next
      case False
      with Cons show ?thesis by (simp add: consume_def)
    qed
  qed
qed

lemma m_Seq_lits_fails:
  "\<not> startsWith (rest st) w \<Longrightarrow> m False (Seq (lits w) r) st = []"
  by (simp add: m_lits_fails)

lemma m_Bol_Seq_lits_fails:
  "\<not> startsWith (rest st) w \<Longrightarrow> m False (Seq Bol (Seq (lits w) r)) st = []"
  by (auto simp: m_lits_fails split: option.splits)

lemma m_Plus_Grp_Seq_lits_fails:
  "\<not> startsWith (rest st) w \<Longrightarrow> m False (Plus g (Grp n (Seq (lits w) r))) st = []"
  by (simp add: m_lits_fails)

lemma str_includes_startsWith: "\<not> str_includes s w \<Longrightarrow> \<not> startsWith s w"
  by (cases s; cases w) auto

text \<open>
  An expression that cannot match where the input does not start with \<open>w\<close> leaves a string
  without \<open>w\<close> as it is.
\<close>

lemma replace_g_no_match:
  assumes fails: "\<And>st. \<not> startsWith (rest st) w \<Longrightarrow> m False r st = []"
  shows "\<not> str_includes s w \<Longrightarrow> replace_g False r tmpl p s = s"
proof (induction s arbitrary: p)
  case Nil
  from Nil have "\<not> startsWith [] w" by (rule str_includes_startsWith)
  then have "m False r \<lparr>prev = p, rest = [], caps = Map.empty\<rparr> = []"
    by (intro fails) simp
  then show ?case by (simp add: replace_g.simps [of _ _ _ _ "[]"] matchAt_def)
next
  case (Cons c cs)
  from Cons.prems have "\<not> startsWith (c # cs) w" by (rule str_includes_startsWith)
  then have "m False r \<lparr>prev = p, rest = c # cs, caps = Map.empty\<rparr> = []"
    by (intro fails) simp
  moreover have "replace_g False r tmpl (Some c) cs = cs"
    using Cons.prems by (intro Cons.IH) simp
  ultimately show ?case by (simp add: replace_g.simps [of _ _ _ _ "c # cs"] matchAt_def)
qed

lemma replace_no_match:
  assumes "\<And>st. \<not> startsWith (rest st) w \<Longrightarrow> m False r st = []"
    and "\<not> str_includes s w"
  shows "replace False r tmpl s = s"
  unfolding replace_def using assms by (rule replace_g_no_match)

lemma startsWith_set: "startsWith s w \<Longrightarrow> set w \<subseteq> set s"
  by (induction s w rule: startsWith.induct) auto

lemma str_includes_set: "str_includes s w \<Longrightarrow> set w \<subseteq> set s"
proof (induction s)
  case Nil
  then show ?case by simp
next
  case (Cons a s)
  from Cons.prems consider "startsWith (a # s) w" | "str_includes s w" by auto
  then show ?case
  proof cases
    case 1
    then show ?thesis by (rule startsWith_set)
  next
    case 2
    then have "set w \<subseteq> set s" by (rule Cons.IH)
    then show ?thesis by auto
  qed
qed

lemma not_includes_char: "c \<notin> set s \<Longrightarrow> c \<in> set w \<Longrightarrow> \<not> str_includes s w"
  using str_includes_set by blast

text \<open>The closing paragraph tag completes no list item tag.\<close>

lemma startsWith_append_close:
  assumes "startsWith (u @ js ''</p>'') (js ''<li>'')"
  shows "startsWith u (js ''<li>'')"
proof (cases u)
  case Nil
  with assms show ?thesis by (simp add: js_def)
next
  case u1: (Cons a u1)
  show ?thesis
  proof (cases u1)
    case Nil
    with u1 assms show ?thesis by (simp add: js_def)
  next
    case u2: (Cons b u2)
    show ?thesis
    proof (cases u2)
      case Nil
      with u1 u2 assms show ?thesis by (simp add: js_def)
    next
      case u3: (Cons c u3)
      show ?thesis
      proof (cases u3)
        case Nil
        with u1 u2 u3 assms show ?thesis by (simp add: js_def)
      next
        case (Cons d u4)
        with u1 u2 u3 assms show ?thesis by (simp add: js_def)
      qed
    qed
  qed
qed

lemma str_includes_append_close:
  "str_includes (t @ js ''</p>'') (js ''<li>'') \<Longrightarrow> str_includes t (js ''<li>'')"
proof (induction t)
  case Nil
  then show ?case by (simp add: js_def)
next
  case (Cons x xs)
  from Cons.prems consider "startsWith ((x # xs) @ js ''</p>'') (js ''<li>'')"
    | "str_includes (xs @ js ''</p>'') (js ''<li>'')" by auto
  then show ?case
  proof cases
    case 1
    then have "startsWith (x # xs) (js ''<li>'')" by (rule startsWith_append_close)
    then show ?thesis by simp
  next
    case 2
    then have "str_includes xs (js ''<li>'')" by (rule Cons.IH)
    then show ?thesis by simp
  qed
qed

lemma no_li_wrapped:
  assumes "\<not> str_includes t (js ''<li>'')"
  shows "\<not> str_includes (js ''<p>'' @ t @ js ''</p>'') (js ''<li>'')"
proof
  assume "str_includes (js ''<p>'' @ t @ js ''</p>'') (js ''<li>'')"
  then have "str_includes (t @ js ''</p>'') (js ''<li>'')" by (simp add: js_def)
  then have "str_includes t (js ''<li>'')" by (rule str_includes_append_close)
  with assms show False by simp
qed

lemma inlineMarkup_plain:
  assumes "set t \<inter> set (js ''#*`\<newline>'') = {}"
  shows "inlineMarkup t = t"
proof -
  from assms have hash: "of_char CHR ''#'' \<notin> set t" and star: "of_char CHR ''*'' \<notin> set t"
    and tick: "of_char CHR ''`'' \<notin> set t" and nl: "of_char CHR ''\<newline>'' \<notin> set t"
    by (auto simp: js_def)
  have h: "\<not> str_includes t (js ''### '')" "\<not> str_includes t (js ''## '')" "\<not> str_includes t (js ''# '')"
    by (rule not_includes_char [OF hash], simp add: js_def)+
  have s: "\<not> str_includes t (js ''**'')" "\<not> str_includes t (js ''*'')"
    by (rule not_includes_char [OF star], simp add: js_def)+
  have c: "\<not> str_includes t (js ''`'')"
    by (rule not_includes_char [OF tick], simp add: js_def)
  have n: "\<not> str_includes t (js ''\<newline>\<newline>'')" "\<not> str_includes t (js ''\<newline>'')"
    by (rule not_includes_char [OF nl], simp add: js_def)+
  have 1: "replace False re_h4 tmpl t = t" for tmpl
    unfolding re_h4_def by (rule replace_no_match [OF m_Bol_Seq_lits_fails h(1)])
  have 2: "replace False re_h3 tmpl t = t" for tmpl
    unfolding re_h3_def by (rule replace_no_match [OF m_Bol_Seq_lits_fails h(2)])
  have 3: "replace False re_h2 tmpl t = t" for tmpl
    unfolding re_h2_def by (rule replace_no_match [OF m_Bol_Seq_lits_fails h(3)])
  have 4: "replace False re_strong tmpl t = t" for tmpl
    unfolding re_strong_def by (rule replace_no_match [OF m_Seq_lits_fails s(1)])
  have 5: "replace False re_em tmpl t = t" for tmpl
    unfolding re_em_def by (rule replace_no_match [OF m_Seq_lits_fails s(2)])
  have 6: "replace False re_code tmpl t = t" for tmpl
    unfolding re_code_def by (rule replace_no_match [OF m_Seq_lits_fails c])
  have 7: "replace False re_nn tmpl t = t" for tmpl
    unfolding re_nn_def by (rule replace_no_match [OF m_lits_fails n(1)])
  have 8: "replace False re_n tmpl t = t" for tmpl
    unfolding re_n_def by (rule replace_no_match [OF m_lits_fails n(2)])
  show ?thesis by (simp only: inlineMarkup_def 1 2 3 4 5 6 7 8)
qed

lemma listMarkup_plain:
  assumes "of_char CHR ''-'' \<notin> set t" and "\<not> str_includes t (js ''<li>'')"
  shows "listMarkup (js ''<p>'' @ t @ js ''</p>'') = js ''<p>'' @ t @ js ''</p>''"
proof -
  let ?s = "js ''<p>'' @ t @ js ''</p>''"
  have "of_char CHR ''-'' \<notin> set ?s" using assms(1) by (simp add: js_def)
  then have d: "\<not> str_includes ?s (js ''<p>- '')"
    by (rule not_includes_char) (simp add: js_def)
  have l: "\<not> str_includes ?s (js ''<li>'')" using assms(2) by (rule no_li_wrapped)
  have 1: "replace False re_li tmpl ?s = ?s" for tmpl
    unfolding re_li_def by (rule replace_no_match [OF m_Seq_lits_fails d])
  have 2: "replace False re_ul tmpl ?s = ?s" for tmpl
    unfolding re_ul_def by (rule replace_no_match [OF m_Plus_Grp_Seq_lits_fails l])
  show ?thesis by (simp only: listMarkup_def 1 2)
qed

section \<open>The formatter does not escape\<close>

text \<open>
  C4, as stated, fails: the formatter never escapes. A text that holds an element with an
  event handler is returned with the element as it is, wrapped in a paragraph, and
  \<open>addMessage\<close> assigns that string to \<open>innerHTML\<close>.
\<close>

theorem formatLLMResponse_raw_markup_counterexample:
  "formatLLMResponse (Str (js ''<img src=x onerror=alert(1)>'')) =
     Some (js ''<p><img src=x onerror=alert(1)></p>'') \<and>
   str_includes (js ''<p><img src=x onerror=alert(1)></p>'') (js ''<img src=x onerror=alert(1)>'')"
  by (simp add: format_defs re_defs eval_defs)

text \<open>
  C4, amended. The formatter applies its substitutions to the raw text and escapes
  nothing: a non-empty text without \<open>#\<close>, \<open>*\<close>, backquote, hyphen and line feed, and
  without the tag \<open><li>\<close>, is returned unchanged between \<open><p>\<close> and \<open></p>\<close>, whatever
  markup it holds.
\<close>

theorem formatLLMResponse_verbatim:
  assumes "t \<noteq> []" and "set t \<inter> set (js ''#*`-\<newline>'') = {}"
    and "\<not> str_includes t (js ''<li>'')"
  shows "formatLLMResponse (Str t) = Some (js ''<p>'' @ t @ js ''</p>'')"
proof -
  from assms(2) have a: "set t \<inter> set (js ''#*`\<newline>'') = {}" and b: "of_char CHR ''-'' \<notin> set t"
    by (auto simp: js_def)
  show ?thesis
    using assms(1)
    by (simp add: formatLLMResponse_def inlineMarkup_plain [OF a] listMarkup_plain [OF b assms(3)])
qed

theorem formatLLMResponse_verbatim_witness:
  "formatLLMResponse (Str (js ''<b onmouseover=alert(1)>hi</b>'')) =
     Some (js ''<p><b onmouseover=alert(1)>hi</b></p>'')"
  using formatLLMResponse_verbatim [of "js ''<b onmouseover=alert(1)>hi</b>''"]
  by (simp add: js_def)

section \<open>List rendering\<close>

text \<open>
  C5 fails on the code. Of the two lines \<open>- a\<close> and \<open>- b\<close> only the first becomes a list
  item: the list replacement asks for \<open><p>\<close> before the hyphen, which only the first line
  of a paragraph has. The second line stays text after a line break, and the opening
  \<open><p>\<close> is consumed while \<open></p>\<close> stays. With bullets the formatter of src/llm.js
  builds no list at all, and the variant with the bullet replacement again only one item.
\<close>

theorem formatLLMResponse_two_bullets:
  "formatLLMResponse (Str (js ''- a\<newline>- b'')) = Some (js ''<ul><li>a</li></ul><br>- b</p>'') \<and>
   formatLLMResponse (Str ([0x2022] @ js '' a\<newline>'' @ [0x2022] @ js '' b'')) =
     Some (js ''<p>'' @ [0x2022] @ js '' a<br>'' @ [0x2022] @ js '' b</p>'') \<and>
   formatLLMResponse_bullet (Str ([0x2022] @ js '' a\<newline>'' @ [0x2022] @ js '' b'')) =
     Some (js ''<ul><li>a</li></ul><br>'' @ [0x2022] @ js '' b</p>'')"
  by (simp add: format_defs re_defs eval_defs)

section \<open>The topic fragment\<close>


lemma lower_find_machine_learning:
  "toLowerCase (js ''Find Machine Learning'') = js ''find machine learning''"
  by (simp add: toLowerCase_def js_def)

lemma fragment_find_machine_learning:
  "topicFragment (js ''find machine learning'') = js ''mache learng''"
  by (simp add: topicFragment_def re_stopwords_def trim_def isWhiteSpace_def canonicalize_def eval_defs)

lemma branch_find_machine_learning:
  "str_includes (js ''find machine learning'') (js ''list'') = False"
  "str_includes (js ''find machine learning'') (js ''unit'') = False"
  "str_includes (js ''find machine learning'') (js ''syllabus'') = False"
  "str_includes (js ''find machine learning'') (js ''what is'') = False"
  "str_includes (js ''find machine learning'') (js ''show me'') = False"
  "str_includes (js ''find machine learning'') (js ''tell me about'') = False"
  "str_includes (js ''find machine learning'') (js ''find'') = True"
  by (simp_all add: js_def)

text \<open>
  C6 fails on the code. The expression has no word boundaries, so the seven letter
  sequences are deleted wherever they stand. For the query \<open>Find Machine Learning\<close> the
  topic search is called with \<open>mache learng\<close> (\<open>in\<close> is taken out of both words), not with
  \<open>machine learning\<close>, whatever the catalog functions are.
\<close>

theorem topic_fragment_inside_words:
  "topicFragment (toLowerCase (js ''Find Machine Learning'')) = js ''mache learng'' \<and>
   processQuery api syllabusSubjects (js ''Find Machine Learning'') =
     topicAnswer (searchTopics api (js ''mache learng''))"
  by (simp add: processQuery_def respond_def lower_find_machine_learning
      branch_find_machine_learning fragment_find_machine_learning)

section \<open>Unit queries\<close>










text \<open>
  The unit branch for a number other than 0, when the lookup finds no unit: the message
  with the number of units of the subject, as lines 119 to 120 build it.
\<close>

lemma unitAnswer_missing_unit:
  assumes "n \<noteq> 0" and "\<forall>rs ru. findSubjectUnit api (name s) n \<noteq> Some (rs, Some ru)"
  shows "unitAnswer api (Some s) (Some n) = Html (unitNotFound n s)"
  using assms by (auto simp: unitAnswer_def split: option.splits prod.splits)

lemma unit_query_missing_unit_nonzero:
  assumes "\<not> (str_includes (toLowerCase query) (js ''list'') \<and>
              (str_includes (toLowerCase query) (js ''subject'') \<or>
               str_includes (toLowerCase query) (js ''all'')))"
    and "str_includes (toLowerCase query) (js ''unit'')"
    and "findSubjectInQuery api syllabusSubjects (toLowerCase query) = Some s"
    and "unitNumOf (toLowerCase query) = Some n"
    and "n \<noteq> 0"
    and "\<forall>rs ru. findSubjectUnit api (name s) n \<noteq> Some (rs, Some ru)"
  shows "processQuery api syllabusSubjects query = Html (unitNotFound n s)"
proof -
  from assms(1) have noList:
    "(str_includes (toLowerCase query) (js ''list'') \<and>
       (str_includes (toLowerCase query) (js ''subject'') \<or>
        str_includes (toLowerCase query) (js ''all''))) = False"
    by simp
  from assms(2) have unitBranch: "str_includes (toLowerCase query) (js ''unit'') = True"
    by simp
  have "respond api syllabusSubjects (toLowerCase query) = unitAnswer api (Some s) (Some n)"
    unfolding respond_def by (simp only: noList unitBranch assms(3,4) if_False if_True)
  then show ?thesis
    by (simp only: processQuery_def unitAnswer_missing_unit [OF assms(5,6)])
qed



section \<open>The local responder resolves subject names only\<close>

lemma searchSubjects_find:
  "searchSubjects q ss = map_option subjectDump (find (nameMatches q) ss)"
  by (induction ss) simp_all

lemma lower_backprop:
  "toLowerCase (js ''what is backpropagation'') = js ''what is backpropagation''"
  "toLowerCase (js ''find backpropagation'') = js ''find backpropagation''"
  by (simp_all add: toLowerCase_def js_def)

lemma no_name_match_backprop:
  "nameMatches (js ''what is backpropagation'') deepLearning = False"
  "nameMatches (js ''find backpropagation'') deepLearning = False"
  by (simp_all add: nameMatches_def deepLearning_def toLowerCase_def js_def)

lemma listing_example:
  \<open>subjectListing [deepLearning] =
     js ''I couldn't connect to the AI backend. Here are the available subjects: Deep Learning\<newline>\<newline>Try asking about a specific subject like "Machine Learning" or "Deep Learning".''\<close>
  by (simp add: subjectListing_def deepLearning_def js_def)

lemma local_backprop:
  "generateLocalResponse (js ''what is backpropagation'') exampleCatalog = subjectListing [deepLearning]"
  "generateLocalResponse (js ''find backpropagation'') exampleCatalog = subjectListing [deepLearning]"
  by (simp_all add: generateLocalResponse_def exampleCatalog_def subjectsOrEmpty_def lower_backprop
      no_name_match_backprop)

lemma fragment_backprop:
  "topicFragment (js ''find backpropagation'') = js ''backpropagation''"
  by (simp add: topicFragment_def re_stopwords_def trim_def isWhiteSpace_def canonicalize_def eval_defs)

lemma branch_backprop:
  "str_includes (js ''find backpropagation'') (js ''list'') = False"
  "str_includes (js ''find backpropagation'') (js ''unit'') = False"
  "str_includes (js ''find backpropagation'') (js ''syllabus'') = False"
  "str_includes (js ''find backpropagation'') (js ''what is'') = False"
  "str_includes (js ''find backpropagation'') (js ''show me'') = False"
  "str_includes (js ''find backpropagation'') (js ''tell me about'') = False"
  "str_includes (js ''find backpropagation'') (js ''find'') = True"
  by (simp_all add: js_def)

lemma no_unit_in_listing:
  \<open>str_includes
     (js ''I couldn't connect to the AI backend. Here are the available subjects: Deep Learning\<newline>\<newline>Try asking about a specific subject like "Machine Learning" or "Deep Learning".'')
     (js ''Unit 3'') = False\<close>
  by (simp add: js_def)

text \<open>
  C3, as stated, fails. In the example catalog Unit 3 of Deep Learning holds the topic
  Backpropagation; the local responder answers \<open>what is backpropagation\<close> with the list
  of subject names, in which neither the unit nor the topic appears. Nor does it follow
  the intent resolution of \<open>processQuery\<close>: for \<open>find backpropagation\<close> that function
  calls the topic search with \<open>backpropagation\<close>, the local responder gives the same list.
\<close>

theorem localResponder_no_topic_search_counterexample:
  \<open>topics (units deepLearning ! 2) = [js ''Backpropagation'', js ''Regularization''] \<and>
   generateLocalResponse (js ''what is backpropagation'') exampleCatalog =
     js ''I couldn't connect to the AI backend. Here are the available subjects: Deep Learning\<newline>\<newline>Try asking about a specific subject like "Machine Learning" or "Deep Learning".'' \<and>
   \<not> str_includes (generateLocalResponse (js ''what is backpropagation'') exampleCatalog) (js ''Unit 3'') \<and>
   generateLocalResponse (js ''find backpropagation'') exampleCatalog =
     generateLocalResponse (js ''what is backpropagation'') exampleCatalog \<and>
   (\<forall>api. processQuery api [deepLearning] (js ''find backpropagation'') =
      topicAnswer (searchTopics api (js ''backpropagation'')))\<close>
  by (simp add: local_backprop listing_example no_unit_in_listing processQuery_def respond_def
      lower_backprop branch_backprop fragment_backprop) (simp add: deepLearning_def)

text \<open>
  C3, amended. The local responder runs no intent resolution and no topic search. It
  looks for the first subject, in catalog order, whose lowercased name contains the
  lowercased query or is contained in it; it answers with the dump of that subject, and
  with the list of the subject names when there is none.
\<close>

theorem generateLocalResponse_subject_names_only:
  "generateLocalResponse query syllabusData =
     (case find (nameMatches (toLowerCase query)) (subjectsOrEmpty syllabusData) of
        Some subject \<Rightarrow> subjectDump subject
      | None \<Rightarrow> subjectListing (subjectsOrEmpty syllabusData)) \<and>
   ((\<forall>subject \<in> set (subjectsOrEmpty syllabusData). \<not> nameMatches (toLowerCase query) subject) \<longrightarrow>
      generateLocalResponse query syllabusData = subjectListing (subjectsOrEmpty syllabusData))"
proof -
  have "find (nameMatches (toLowerCase query)) (subjectsOrEmpty syllabusData) = None"
    if "\<forall>subject \<in> set (subjectsOrEmpty syllabusData). \<not> nameMatches (toLowerCase query) subject"
    using that by (simp add: find_None_iff)
  then show ?thesis
    by (auto simp: generateLocalResponse_def searchSubjects_find split: option.splits)
qed

theorem generateLocalResponse_subject_names_only_witness:
  "generateLocalResponse (js ''what is backpropagation'') exampleCatalog = subjectListing [deepLearning]"
  using generateLocalResponse_subject_names_only [of "js ''what is backpropagation''" exampleCatalog]
  by (simp add: exampleCatalog_def subjectsOrEmpty_def lower_backprop no_name_match_backprop)

section \<open>History and the primary call\<close>

text \<open>
  C7, as stated, fails: the user turn is appended before the request is sent, and stays
  when the call fails. After a network error on an empty history, the history holds the
  user turn, for both primary services.
\<close>

theorem failed_call_keeps_user_turn_counterexample:
  "snd (callLLM [] (js ''hi'') Rejected) = [\<lparr>role = User, content = js ''hi''\<rparr>] \<and>
   snd (callLLM_studyBuddy [] (js ''hi'') Rejected Null Rejected) = [\<lparr>role = User, content = js ''hi''\<rparr>] \<and>
   snd (callLLM [] (js ''hi'') Rejected) \<noteq> []"
  by (simp add: callLLM_def callLLM_studyBuddy_def addToHistory_def Let_def MAX_HISTORY_def)

text \<open>
  C7, amended. The primary call appends the user turn in every case, before the request.
  It appends the assistant turn after it exactly when the call returns HTTP success with a
  non-empty message; when the call fails, the history is the old one with the user turn.
\<close>

theorem primary_call_history:
  "snd (callLLM h userMessage fetched) =
     (case spec_chat_success fetched of
        Some a \<Rightarrow> addToHistory (addToHistory h User userMessage) Assistant a
      | None \<Rightarrow> addToHistory h User userMessage) \<and>
   snd (callLLM_studyBuddy h userMessage fetched' geminiKey fetched2) =
     (case spec_query_success fetched' of
        Some a \<Rightarrow> addToHistory (addToHistory h User userMessage) Assistant a
      | None \<Rightarrow> addToHistory h User userMessage)"
  by (auto simp: callLLM_def callLLM_studyBuddy_def spec_chat_success_def spec_query_success_def
      Let_def split: attempt.splits)

theorem primary_call_history_witness:
  "snd (callLLM [] (js ''hi'')
      (Resolved \<lparr>chat_status = 200, chat_text = Rejected,
         chat_json = Resolved \<lparr>data_error = False, data_content = Str (js ''hello'')\<rparr>\<rparr>)) =
     [\<lparr>role = User, content = js ''hi''\<rparr>, \<lparr>role = Assistant, content = js ''hello''\<rparr>] \<and>
   snd (callLLM [] (js ''hi'') (Resolved \<lparr>chat_status = 500, chat_text = Rejected, chat_json = Rejected\<rparr>)) =
     [\<lparr>role = User, content = js ''hi''\<rparr>]"
  using primary_call_history [of "[]" "js ''hi''"
      "Resolved \<lparr>chat_status = 200, chat_text = Rejected,
         chat_json = Resolved \<lparr>data_error = False, data_content = Str (js ''hello'')\<rparr>\<rparr>"]
    primary_call_history [of "[]" "js ''hi''"
      "Resolved \<lparr>chat_status = 500, chat_text = Rejected, chat_json = Rejected\<rparr>"]
  by (simp add: spec_chat_success_def response_ok_def addToHistory_def Let_def MAX_HISTORY_def js_def)

section \<open>Rate limiting\<close>

text \<open>
  C8, as stated, fails for the retrieval service: its \<open>callLLM\<close> throws on every status
  outside 200 to 299 and answers from the local responder, for 429 as for 500.
\<close>

theorem backend_429_falls_through_counterexample:
  "callLLM_backend [] (js ''hi'') exampleCatalog (Resolved \<lparr>query_status = 429, query_json = Rejected\<rparr>) =
     (Str (generateLocalResponse (js ''hi'') exampleCatalog), [\<lparr>role = User, content = js ''hi''\<rparr>]) \<and>
   callLLM_backend [] (js ''hi'') exampleCatalog (Resolved \<lparr>query_status = 429, query_json = Rejected\<rparr>) =
     callLLM_backend [] (js ''hi'') exampleCatalog (Resolved \<lparr>query_status = 500, query_json = Rejected\<rparr>) \<and>
   fst (callLLM_backend [] (js ''hi'') exampleCatalog (Resolved \<lparr>query_status = 429, query_json = Rejected\<rparr>))
     \<noteq> Str rateLimitNotice"
proof -
  have "generateLocalResponse (js ''hi'') exampleCatalog \<noteq> rateLimitNotice"
    by (simp add: generateLocalResponse_def exampleCatalog_def subjectsOrEmpty_def nameMatches_def
        deepLearning_def subjectListing_def rateLimitNotice_def toLowerCase_def js_def)
  then show ?thesis
    by (simp add: callLLM_backend_def response_ok_def addToHistory_def Let_def MAX_HISTORY_def)
qed

text \<open>
  C8, amended. The direct model call (src/llm.js) returns the rate-limit notice for the
  status 429, once the body of the response has been read, and \<open>null\<close> for every other
  status outside 200 to 299. The retrieval service with the local responder does not tell
  429 from the other failures: it answers each of them from the local responder.
\<close>

theorem rate_limit_notice:
  "(chat_status r = 429 \<and> chat_text r = Resolved errorText \<longrightarrow>
      callLLM h userMessage (Resolved r) = (Str rateLimitNotice, addToHistory h User userMessage)) \<and>
   (\<not> response_ok (chat_status r) \<and> chat_status r \<noteq> 429 \<longrightarrow>
      callLLM h userMessage (Resolved r) = (Null, addToHistory h User userMessage)) \<and>
   (\<not> response_ok (query_status r') \<longrightarrow>
      callLLM_backend h userMessage syllabusContext (Resolved r') =
        (Str (generateLocalResponse userMessage syllabusContext), addToHistory h User userMessage))"
  by (auto simp: callLLM_def callLLM_backend_def response_ok_def Let_def split: attempt.splits)

theorem rate_limit_notice_witness:
  "callLLM [] (js ''hi'')
      (Resolved \<lparr>chat_status = 429, chat_text = Resolved (js ''Too Many Requests''), chat_json = Rejected\<rparr>) =
     (Str ([0x26A0, 0xFE0F] @ js '' Rate limit reached. Please wait a moment and try again.''),
      [\<lparr>role = User, content = js ''hi''\<rparr>]) \<and>
   callLLM [] (js ''hi'')
      (Resolved \<lparr>chat_status = 500, chat_text = Resolved (js ''Internal Server Error''), chat_json = Rejected\<rparr>) =
     (Null, [\<lparr>role = User, content = js ''hi''\<rparr>])"
  using rate_limit_notice [of "\<lparr>chat_status = 429, chat_text = Resolved (js ''Too Many Requests''), chat_json = Rejected\<rparr>"
      "js ''Too Many Requests''" "[]" "js ''hi''"]
    rate_limit_notice [of "\<lparr>chat_status = 500, chat_text = Resolved (js ''Internal Server Error''), chat_json = Rejected\<rparr>"
      "js ''Internal Server Error''" "[]" "js ''hi''"]
  by (simp add: response_ok_def rateLimitNotice_def addToHistory_def Let_def MAX_HISTORY_def)

end
